theory Spec2Isabelle
  imports Complex_Main
begin

section \<open>JavaScript numbers\<close>

text \<open>
  A JavaScript number is NaN, one of the two infinities, or a finite value. The finite
  values are taken as exact reals: rounding, overflow to an infinity and the sign of zero
  are not modelled. Every zero divisor is treated as +0, which is what the zero divisors
  of this program are (the difference \<open>xMax - xMin\<close> of two equal finite numbers).
\<close>

datatype jsnum = NaN | PInf | NInf | Fin real

fun js_neg :: "jsnum \<Rightarrow> jsnum" where
  "js_neg NaN = NaN"
| "js_neg PInf = NInf"
| "js_neg NInf = PInf"
| "js_neg (Fin a) = Fin (- a)"

fun js_add :: "jsnum \<Rightarrow> jsnum \<Rightarrow> jsnum" where
  "js_add NaN _ = NaN"
| "js_add _ NaN = NaN"
| "js_add PInf NInf = NaN"
| "js_add NInf PInf = NaN"
| "js_add PInf _ = PInf"
| "js_add _ PInf = PInf"
| "js_add NInf _ = NInf"
| "js_add _ NInf = NInf"
| "js_add (Fin a) (Fin b) = Fin (a + b)"

definition js_sub :: "jsnum \<Rightarrow> jsnum \<Rightarrow> jsnum" where
  "js_sub a b = js_add a (js_neg b)"

text \<open>The sign of a product with an infinity; zero times infinity is NaN.\<close>

definition inf_times :: "bool \<Rightarrow> real \<Rightarrow> jsnum" where
  "inf_times pos a =
     (if a = 0 then NaN else if (0 < a) = pos then PInf else NInf)"

fun js_mul :: "jsnum \<Rightarrow> jsnum \<Rightarrow> jsnum" where
  "js_mul NaN _ = NaN"
| "js_mul _ NaN = NaN"
| "js_mul PInf PInf = PInf"
| "js_mul PInf NInf = NInf"
| "js_mul NInf PInf = NInf"
| "js_mul NInf NInf = PInf"
| "js_mul PInf (Fin b) = inf_times True b"
| "js_mul NInf (Fin b) = inf_times False b"
| "js_mul (Fin a) PInf = inf_times True a"
| "js_mul (Fin a) NInf = inf_times False a"
| "js_mul (Fin a) (Fin b) = Fin (a * b)"

fun js_div :: "jsnum \<Rightarrow> jsnum \<Rightarrow> jsnum" where
  "js_div NaN _ = NaN"
| "js_div _ NaN = NaN"
| "js_div PInf PInf = NaN"
| "js_div PInf NInf = NaN"
| "js_div NInf PInf = NaN"
| "js_div NInf NInf = NaN"
| "js_div PInf (Fin b) = (if 0 \<le> b then PInf else NInf)"
| "js_div NInf (Fin b) = (if 0 \<le> b then NInf else PInf)"
| "js_div (Fin a) PInf = Fin 0"
| "js_div (Fin a) NInf = Fin 0"
| "js_div (Fin a) (Fin b) =
     (if b = 0 then (if a = 0 then NaN else if 0 < a then PInf else NInf)
      else Fin (a / b))"

text \<open>\<open>a > b\<close> and \<open>a <= b\<close>: every comparison with NaN is false.\<close>

fun js_gt :: "jsnum \<Rightarrow> jsnum \<Rightarrow> bool" where
  "js_gt NaN _ = False"
| "js_gt _ NaN = False"
| "js_gt PInf PInf = False"
| "js_gt PInf _ = True"
| "js_gt _ PInf = False"
| "js_gt NInf _ = False"
| "js_gt _ NInf = True"
| "js_gt (Fin a) (Fin b) = (b < a)"

fun js_le :: "jsnum \<Rightarrow> jsnum \<Rightarrow> bool" where
  "js_le NaN _ = False"
| "js_le _ NaN = False"
| "js_le a b = (\<not> js_gt a b)"

text \<open>\<open>Math.max\<close> and \<open>Math.min\<close> of an argument list: NaN as soon as one argument
  is NaN, \<open>-Infinity\<close> and \<open>Infinity\<close> for no argument.\<close>

fun max2 :: "jsnum \<Rightarrow> jsnum \<Rightarrow> jsnum" where
  "max2 NaN _ = NaN"
| "max2 _ NaN = NaN"
| "max2 a b = (if js_gt b a then b else a)"

fun min2 :: "jsnum \<Rightarrow> jsnum \<Rightarrow> jsnum" where
  "min2 NaN _ = NaN"
| "min2 _ NaN = NaN"
| "min2 a b = (if js_gt a b then b else a)"

definition Math_max :: "jsnum list \<Rightarrow> jsnum" where
  "Math_max args = foldl max2 NInf args"

definition Math_min :: "jsnum list \<Rightarrow> jsnum" where
  "Math_min args = foldl min2 PInf args"

text \<open>\<open>Number.isFinite\<close>, and the truthiness of a number (\<open>n || 1\<close> takes \<open>n\<close> when it is
  neither zero nor NaN).\<close>

fun isFinite :: "jsnum \<Rightarrow> bool" where
  "isFinite (Fin _) = True"
| "isFinite _ = False"

fun truthy :: "jsnum \<Rightarrow> bool" where
  "truthy NaN = False"
| "truthy (Fin a) = (a \<noteq> 0)"
| "truthy _ = True"

text \<open>
  The values that reach \<open>Number(v)\<close> in this program: a number, \<open>null\<close> (the spot
  before a quote arrives) and \<open>undefined\<close> (a missing field). Strings are not modelled.
\<close>

datatype jsval = JNumber jsnum | JNull | JUndefined

fun Number :: "jsval \<Rightarrow> jsnum" where
  "Number (JNumber n) = n"
| "Number JNull = Fin 0"
| "Number JUndefined = NaN"

section \<open>The payoff function\<close>

text \<open>The finite-or-fallback normalization. The default of \<open>fallback\<close>, 0, is written
  out at each call.\<close>

definition clampNumber :: "jsval \<Rightarrow> jsnum \<Rightarrow> jsnum" where
  "clampNumber v fallback = (let n = Number v in if isFinite n then n else fallback)"

definition normType :: "string \<Rightarrow> string" where
  "normType t = (if t = ''P'' then ''P'' else ''C'')"

text \<open>A leg, with the fields the payoff reads (\<open>id\<close> and \<open>exp\<close> are not read).\<close>

record leg =
  side :: string
  type :: string
  qty :: jsval
  strike :: jsval

definition payoffAtPrice :: "leg \<Rightarrow> jsnum \<Rightarrow> jsnum" where
  "payoffAtPrice l S =
     (let K = clampNumber (strike l) (Fin 0);
          q = clampNumber (qty l) (Fin 0);
          sd = (if side l = ''SHORT'' then Fin (- 1) else Fin 1);
          ty = normType (type l);
          intrinsic = (if ty = ''C'' then Math_max [Fin 0, js_sub S K]
                       else Math_max [Fin 0, js_sub K S])
      in js_mul (js_mul (js_mul sd q) intrinsic) (Fin 100))"

section \<open>The series builder\<close>

record payoff_series =
  xs :: "jsnum list"
  ys :: "jsnum list"
  minS :: jsnum
  maxS :: jsnum

text \<open>The inner loop \<open>for (const leg of legs) total += payoffAtPrice(leg, S)\<close>,
  from \<open>total = 0\<close>.\<close>

definition total_payoff :: "leg list \<Rightarrow> jsnum \<Rightarrow> jsnum" where
  "total_payoff legs S = foldl (\<lambda>total l. js_add total (payoffAtPrice l S)) (Fin 0) legs"

text \<open>The outer loop \<open>for (let i = 0; i <= steps; i++)\<close>, pushing onto both arrays.\<close>

function series_loop ::
  "leg list \<Rightarrow> jsnum \<Rightarrow> jsnum \<Rightarrow> nat \<Rightarrow> nat \<Rightarrow> jsnum list \<times> jsnum list
     \<Rightarrow> jsnum list \<times> jsnum list" where
  "series_loop legs mS step steps i (sx, sy) =
     (if i \<le> steps then
        (let S = js_add mS (js_mul step (Fin (real i)));
             total = total_payoff legs S
         in series_loop legs mS step steps (Suc i) (sx @ [S], sy @ [total]))
      else (sx, sy))"
  by pat_completeness auto
termination
  by (relation "measure (\<lambda>(legs, mS, step, steps, i, acc). Suc steps - i)") auto

definition buildPayoffSeries :: "leg list \<Rightarrow> jsval \<Rightarrow> payoff_series" where
  "buildPayoffSeries legs spot =
     (let S0 = clampNumber spot (Fin 0);
          center = (if js_gt S0 (Fin 0) then S0 else Fin 100);
          mn = Math_max [Fin 1, js_mul center (Fin (1 / 2))];
          mx = js_mul center (Fin (3 / 2));
          steps = 200;
          step = js_div (js_sub mx mn) (Fin (real steps));
          (sx, sy) = series_loop legs mn step steps 0 ([], [])
      in \<lparr>xs = sx, ys = sy, minS = mn, maxS = mx\<rparr>)"

section \<open>The geometry mapper\<close>

text \<open>
  The path string is a sequence of commands, \<open>M px py\<close> for the first sample and
  \<open> L px py\<close> for each later one. The model keeps the commands with their numbers;
  \<open>path_string\<close> is the string the template literals build from them, for a given
  rendering of a number as text.
\<close>

datatype cmd = MoveTo jsnum jsnum | LineTo jsnum jsnum

fun cmd_x :: "cmd \<Rightarrow> jsnum" where
  "cmd_x (MoveTo px py) = px"
| "cmd_x (LineTo px py) = px"

fun cmd_y :: "cmd \<Rightarrow> jsnum" where
  "cmd_y (MoveTo px py) = py"
| "cmd_y (LineTo px py) = py"

fun cmd_string :: "(jsnum \<Rightarrow> string) \<Rightarrow> cmd \<Rightarrow> string" where
  "cmd_string str (MoveTo px py) = ''M '' @ str px @ '' '' @ str py"
| "cmd_string str (LineTo px py) = '' L '' @ str px @ '' '' @ str py"

definition path_string :: "(jsnum \<Rightarrow> string) \<Rightarrow> cmd list \<Rightarrow> string" where
  "path_string str d = concat (map (cmd_string str) d)"

record chart_bounds =
  xMin :: jsnum
  xMax :: jsnum
  yMin :: jsnum
  yMax :: jsnum
  yZero :: jsnum
  xToPx :: "jsnum \<Rightarrow> jsnum"
  yToPx :: "jsnum \<Rightarrow> jsnum"

record chart =
  path :: "cmd list"
  bounds :: "chart_bounds option"

text \<open>Reading an array at an index: \<open>undefined\<close> past the end, which is NaN in the
  arithmetic that follows.\<close>

definition at_index :: "jsnum list \<Rightarrow> nat \<Rightarrow> jsnum" where
  "at_index a i = (if i < length a then a ! i else NaN)"

text \<open>The loop \<open>for (let i = 0; i < xs.length; i++)\<close> appending to \<open>d\<close>.\<close>

function path_loop ::
  "(jsnum \<Rightarrow> jsnum) \<Rightarrow> (jsnum \<Rightarrow> jsnum) \<Rightarrow> jsnum list \<Rightarrow> jsnum list \<Rightarrow> nat \<Rightarrow> cmd list
     \<Rightarrow> cmd list" where
  "path_loop fx fy sx sy i d =
     (if i < length sx then
        (let px = fx (at_index sx i);
             py = fy (at_index sy i)
         in path_loop fx fy sx sy (Suc i)
              (d @ [if i = 0 then MoveTo px py else LineTo px py]))
      else d)"
  by pat_completeness auto
termination
  by (relation "measure (\<lambda>(fx, fy, sx, sy, i, d). length sx - i)") auto

text \<open>The closures \<open>xToPx\<close> and \<open>yToPx\<close>, with the variables they capture as
  parameters. \<open>yMax - yMin || 1\<close> is the difference when it is truthy, else 1. The
  padding is always given (its default is 30).\<close>

definition xToPx_closure :: "jsnum \<Rightarrow> jsnum \<Rightarrow> jsnum \<Rightarrow> jsnum \<Rightarrow> jsnum \<Rightarrow> jsnum" where
  "xToPx_closure padding x0 x1 innerW =
     (\<lambda>x. js_add padding (js_mul (js_div (js_sub x x0) (js_sub x1 x0)) innerW))"

definition yToPx_closure :: "jsnum \<Rightarrow> jsnum \<Rightarrow> jsnum \<Rightarrow> jsnum \<Rightarrow> jsnum \<Rightarrow> jsnum" where
  "yToPx_closure padding y0 y1 innerH =
     (\<lambda>y. js_add padding
        (js_mul (js_sub (Fin 1)
           (js_div (js_sub y y0) (if truthy (js_sub y1 y0) then js_sub y1 y0 else Fin 1)))
           innerH))"

definition svgPathFromSeries ::
  "jsnum list \<Rightarrow> jsnum list \<Rightarrow> jsnum \<Rightarrow> jsnum \<Rightarrow> jsnum \<Rightarrow> chart" where
  "svgPathFromSeries sx sy width height padding =
     (if length sx = 0 then \<lparr>path = [], bounds = None\<rparr>
      else
        (let x0 = Math_min sx;
             x1 = Math_max sx;
             y0 = Math_min (sy @ [Fin 0]);
             y1 = Math_max (sy @ [Fin 0]);
             innerW = js_sub width (js_mul padding (Fin 2));
             innerH = js_sub height (js_mul padding (Fin 2));
             fx = xToPx_closure padding x0 x1 innerW;
             fy = yToPx_closure padding y0 y1 innerH;
             d = path_loop fx fy sx sy 0 [];
             yz = fy (Fin 0)
         in \<lparr>path = d,
             bounds = Some \<lparr>xMin = x0, xMax = x1, yMin = y0, yMax = y1, yZero = yz,
                            xToPx = fx, yToPx = fy\<rparr>\<rparr>))"

text \<open>The loops are unfolded by hand, one step at a time.\<close>

declare series_loop.simps [simp del] path_loop.simps [simp del]

section \<open>The words of the specification\<close>

text \<open>The real value a numeric field has after the finite-or-fallback normalization
  with fallback 0.\<close>

definition normalized :: "jsval \<Rightarrow> real" where
  "normalized v = (case Number v of Fin a \<Rightarrow> a | _ \<Rightarrow> 0)"

text \<open>Follows the specification: the intrinsic value of a call or a put with strike
  \<open>K\<close> at the price \<open>S\<close>, and the payoff \<open>sign(side) * quantity * intrinsic * 100\<close>.
  In the program a put is the type \<open>P\<close> and a short leg the side \<open>SHORT\<close>.\<close>

definition spec_intrinsic :: "bool \<Rightarrow> real \<Rightarrow> real \<Rightarrow> real" where
  "spec_intrinsic put K S = (if put then max 0 (K - S) else max 0 (S - K))"

definition spec_payoff :: "leg \<Rightarrow> real \<Rightarrow> real" where
  "spec_payoff l S =
     (if side l = ''SHORT'' then - 1 else 1) * normalized (qty l)
       * spec_intrinsic (type l = ''P'') (normalized (strike l)) S * 100"

text \<open>Follows the specification: the center is the normalized spot when that is
  positive and 100 otherwise; the window is \<open>[center*0.5, center*1.5]\<close> with the lower
  bound at least 1; the window is cut into 200 equal steps.\<close>

definition spec_center :: "jsval \<Rightarrow> real" where
  "spec_center spot = (if 0 < normalized spot then normalized spot else 100)"

definition spec_minS :: "jsval \<Rightarrow> real" where
  "spec_minS spot = max 1 (spec_center spot * (1 / 2))"

definition spec_maxS :: "jsval \<Rightarrow> real" where
  "spec_maxS spot = spec_center spot * (3 / 2)"

definition spec_sample :: "jsval \<Rightarrow> nat \<Rightarrow> real" where
  "spec_sample spot i = spec_minS spot + (spec_maxS spot - spec_minS spot) / 200 * real i"

text \<open>Follows the specification: the two linear maps, in the arithmetic of JavaScript
  numbers. \<open>x0\<close>, \<open>x1\<close> and \<open>y0\<close>, \<open>y1\<close> are the bounds of the two ranges.\<close>

definition spec_pixel_x :: "jsnum \<Rightarrow> jsnum \<Rightarrow> jsnum \<Rightarrow> jsnum \<Rightarrow> jsnum \<Rightarrow> jsnum" where
  "spec_pixel_x padding x0 x1 innerWidth price =
     js_add padding (js_mul (js_div (js_sub price x0) (js_sub x1 x0)) innerWidth)"

definition spec_pixel_y :: "jsnum \<Rightarrow> jsnum \<Rightarrow> jsnum \<Rightarrow> jsnum \<Rightarrow> jsnum \<Rightarrow> jsnum" where
  "spec_pixel_y padding y0 y1 innerHeight payoff =
     js_add padding
       (js_mul (js_sub (Fin 1) (js_div (js_sub payoff y0) (js_sub y1 y0))) innerHeight)"

section \<open>Facts about the payoff function\<close>

lemma clampNumber_zero: "clampNumber v (Fin 0) = Fin (normalized v)"
  by (cases "Number v") (simp_all add: clampNumber_def normalized_def)

lemma Math_max_zero_Fin: "Math_max [Fin 0, Fin a] = Fin (max 0 a)"
  by (simp add: Math_max_def)

lemma payoffAtPrice_Fin: "payoffAtPrice l (Fin S) = Fin (spec_payoff l S)"
  by (simp add: payoffAtPrice_def clampNumber_zero normType_def js_sub_def
      Math_max_zero_Fin spec_payoff_def spec_intrinsic_def Let_def)

text \<open>
  Claim C1. For every leg and every price \<open>S\<close>, the payoff function returns
  \<open>sign(side) * quantity * intrinsic * 100\<close>, with the intrinsic value \<open>max(0, S - K)\<close>
  of a call and \<open>max(0, K - S)\<close> of a put, a short leg counting \<open>-1\<close> and a long leg
  \<open>+1\<close>. The long call of quantity 1 and strike 500 pays 5000 at 550 and 0 at 450.
\<close>

theorem payoffAtPrice_formula:
  "payoffAtPrice l (Fin S) = Fin (spec_payoff l S)
   \<and> payoffAtPrice \<lparr>side = ''LONG'', type = ''C'', qty = JNumber (Fin 1),
        strike = JNumber (Fin 500)\<rparr> (Fin 550) = Fin 5000
   \<and> payoffAtPrice \<lparr>side = ''LONG'', type = ''C'', qty = JNumber (Fin 1),
        strike = JNumber (Fin 500)\<rparr> (Fin 450) = Fin 0"
  by (simp add: payoffAtPrice_Fin spec_payoff_def spec_intrinsic_def normalized_def)

section \<open>Facts about the series builder\<close>

lemma series_loop_eq:
  "series_loop legs mS step steps i (sx, sy) =
     (sx @ map (\<lambda>j. js_add mS (js_mul step (Fin (real j)))) [i..<Suc steps],
      sy @ map (\<lambda>j. total_payoff legs (js_add mS (js_mul step (Fin (real j)))))
             [i..<Suc steps])"
proof (induction legs mS step steps i "(sx, sy)" arbitrary: sx sy rule: series_loop.induct)
  case (1 legs mS step steps i sx sy)
  show ?case
  proof (cases "i \<le> steps")
    case True
    then have u: "[i..<Suc steps] = i # [Suc i..<Suc steps]"
      by (simp add: upt_conv_Cons)
    show ?thesis
      using True 1 by (subst series_loop.simps) (simp add: u Let_def del: upt_Suc)
  next
    case False
    then show ?thesis by (subst series_loop.simps) simp
  qed
qed

lemma window_Fin:
  "Math_max [Fin 1, js_mul (if js_gt (clampNumber spot (Fin 0)) (Fin 0)
       then clampNumber spot (Fin 0) else Fin 100) (Fin (1 / 2))] = Fin (spec_minS spot)"
  "js_mul (if js_gt (clampNumber spot (Fin 0)) (Fin 0)
       then clampNumber spot (Fin 0) else Fin 100) (Fin (3 / 2)) = Fin (spec_maxS spot)"
  by (simp_all add: clampNumber_zero spec_minS_def spec_maxS_def spec_center_def Math_max_def)

lemma buildPayoffSeries_eq:
  "buildPayoffSeries legs spot =
     \<lparr>xs = map (\<lambda>j. Fin (spec_sample spot j)) [0..<201],
      ys = map (\<lambda>j. total_payoff legs (Fin (spec_sample spot j))) [0..<201],
      minS = Fin (spec_minS spot), maxS = Fin (spec_maxS spot)\<rparr>"
  unfolding buildPayoffSeries_def Let_def window_Fin series_loop_eq
  by (simp add: js_sub_def spec_sample_def del: upt_Suc)

lemma total_payoff_Fin:
  "total_payoff legs (Fin S) = Fin (sum_list (map (\<lambda>l. spec_payoff l S) legs))"
proof -
  have "foldl (\<lambda>total l. js_add total (payoffAtPrice l (Fin S))) (Fin a) legs
        = Fin (a + sum_list (map (\<lambda>l. spec_payoff l S) legs))" for a
    by (induction legs arbitrary: a) (simp_all add: payoffAtPrice_Fin add.assoc)
  from this [of 0] show ?thesis by (simp add: total_payoff_def)
qed

lemma clampNumber_finite: "isFinite (clampNumber v (Fin f))"
  by (cases "Number v") (simp_all add: clampNumber_def)

lemma clampNumber_idem:
  "clampNumber (JNumber (clampNumber v (Fin f))) (Fin f) = clampNumber v (Fin f)"
  by (cases "Number v") (simp_all add: clampNumber_def)

lemma payoffAtPrice_normalized:
  "payoffAtPrice (l\<lparr>strike := JNumber (clampNumber (strike l) (Fin 0)),
                    qty := JNumber (clampNumber (qty l) (Fin 0))\<rparr>) S = payoffAtPrice l S"
  by (simp add: payoffAtPrice_def clampNumber_idem)

lemma total_payoff_normalized:
  "total_payoff (map (\<lambda>l. l\<lparr>strike := JNumber (clampNumber (strike l) (Fin 0)),
                              qty := JNumber (clampNumber (qty l) (Fin 0))\<rparr>) legs) S
     = total_payoff legs S"
  unfolding total_payoff_def foldl_map payoffAtPrice_normalized ..

lemma buildPayoffSeries_normalized:
  "buildPayoffSeries
     (map (\<lambda>l. l\<lparr>strike := JNumber (clampNumber (strike l) (Fin 0)),
                  qty := JNumber (clampNumber (qty l) (Fin 0))\<rparr>) legs)
     (JNumber (clampNumber spot (Fin 0)))
   = buildPayoffSeries legs spot"
  unfolding buildPayoffSeries_def series_loop_eq total_payoff_normalized clampNumber_idem ..

lemma buildPayoffSeries_length:
  "length (xs (buildPayoffSeries legs spot)) = 201
   \<and> length (ys (buildPayoffSeries legs spot)) = 201"
  by (simp add: buildPayoffSeries_eq del: upt_Suc)

text \<open>In exact arithmetic the sample prices increase strictly when the window is not
  inverted: the normalized spot is not positive (center 100) or exceeds 2/3.\<close>

lemma buildPayoffSeries_increasing:
  assumes "normalized spot \<le> 0 \<or> 2 / 3 < normalized spot" and "i < 200"
  shows "js_gt (xs (buildPayoffSeries legs spot) ! Suc i) (xs (buildPayoffSeries legs spot) ! i)"
proof -
  have "spec_minS spot < spec_maxS spot"
    using assms(1) by (auto simp: spec_minS_def spec_maxS_def spec_center_def)
  then have "spec_sample spot i < spec_sample spot (Suc i)"
    by (simp add: spec_sample_def field_simps)
  then show ?thesis using assms(2)
    by (simp add: buildPayoffSeries_eq del: upt_Suc)
qed

text \<open>
  Claim C2. For every list of legs and every spot, the series builder returns exactly 201
  sample points, and the sample prices are strictly increasing. The count holds
  (\<open>buildPayoffSeries_length\<close>); the order fails for a spot of 0.5: the lower bound is
  clamped to 1 while the upper bound is 0.75, and the prices go down from 1.
\<close>

theorem buildPayoffSeries_half_spot_decreasing:
  "length (xs (buildPayoffSeries legs (JNumber (Fin (1 / 2))))) = 201
   \<and> length (ys (buildPayoffSeries legs (JNumber (Fin (1 / 2))))) = 201
   \<and> minS (buildPayoffSeries legs (JNumber (Fin (1 / 2)))) = Fin 1
   \<and> maxS (buildPayoffSeries legs (JNumber (Fin (1 / 2)))) = Fin (3 / 4)
   \<and> xs (buildPayoffSeries legs (JNumber (Fin (1 / 2)))) ! 0 = Fin 1
   \<and> xs (buildPayoffSeries legs (JNumber (Fin (1 / 2)))) ! 1 = Fin (799 / 800)
   \<and> xs (buildPayoffSeries legs (JNumber (Fin (1 / 2)))) ! 200 = Fin (3 / 4)
   \<and> js_gt (xs (buildPayoffSeries legs (JNumber (Fin (1 / 2)))) ! 0)
        (xs (buildPayoffSeries legs (JNumber (Fin (1 / 2)))) ! 1)"
  by (simp add: buildPayoffSeries_eq spec_sample_def spec_minS_def spec_maxS_def
      spec_center_def normalized_def del: upt_Suc)

text \<open>
  Claim C3, as stated: every numeric input is coerced by the finite-or-fallback
  normalization and no output is NaN or infinite, the payoff function returning a finite
  number also for a non-finite price. The price argument is not coerced: at the price NaN
  the payoff of a long call is NaN.
\<close>

theorem payoffAtPrice_NaN_price:
  "payoffAtPrice \<lparr>side = ''LONG'', type = ''C'', qty = JNumber (Fin 1),
        strike = JNumber (Fin 500)\<rparr> NaN = NaN
   \<and> \<not> isFinite (payoffAtPrice \<lparr>side = ''LONG'', type = ''C'', qty = JNumber (Fin 1),
        strike = JNumber (Fin 500)\<rparr> NaN)"
  by (simp add: payoffAtPrice_def clampNumber_def normType_def js_sub_def Math_max_def)

text \<open>
  Claim C3, amended. The normalization returns a finite number whenever its fallback is
  finite, the fallback for a non-finite or missing value and the value itself for a finite
  one. The payoff function applies it to the strike and the quantity of a leg and the
  series builder to the spot, with fallback 0: both return the same result when these
  inputs are replaced by their normalized values. The price argument is not normalized,
  and nothing is said of the finiteness of the results. None of these facts depends on
  how finite numbers add and multiply.
\<close>

theorem core_inputs_normalized:
  "isFinite (clampNumber v (Fin f))
   \<and> clampNumber (JNumber NaN) fb = fb
   \<and> clampNumber (JNumber PInf) fb = fb
   \<and> clampNumber (JNumber NInf) fb = fb
   \<and> clampNumber JUndefined fb = fb
   \<and> clampNumber (JNumber (Fin a)) fb = Fin a
   \<and> payoffAtPrice l S
       = payoffAtPrice (l\<lparr>strike := JNumber (clampNumber (strike l) (Fin 0)),
                           qty := JNumber (clampNumber (qty l) (Fin 0))\<rparr>) S
   \<and> buildPayoffSeries legs spot
       = buildPayoffSeries
           (map (\<lambda>l. l\<lparr>strike := JNumber (clampNumber (strike l) (Fin 0)),
                        qty := JNumber (clampNumber (qty l) (Fin 0))\<rparr>) legs)
           (JNumber (clampNumber spot (Fin 0)))"
  by (simp add: clampNumber_finite payoffAtPrice_normalized buildPayoffSeries_normalized)
    (simp add: clampNumber_def)

text \<open>
  Claim C4. The series builder centers the window on the spot when the normalized spot is
  positive and on 100 otherwise; the window is \<open>[center*0.5, center*1.5]\<close> with the lower
  bound clamped to at least 1, so \<open>minS\<close> is at least 1 for every spot, also a spot that
  is 0, negative, non-finite or absent.
\<close>

theorem buildPayoffSeries_window:
  "minS (buildPayoffSeries legs spot) = Fin (max 1 (spec_center spot * (1 / 2)))
   \<and> maxS (buildPayoffSeries legs spot) = Fin (spec_center spot * (3 / 2))
   \<and> js_le (Fin 1) (minS (buildPayoffSeries legs spot))
   \<and> minS (buildPayoffSeries legs (JNumber (Fin 0))) = Fin 50
   \<and> minS (buildPayoffSeries legs (JNumber (Fin (- 7)))) = Fin 50
   \<and> minS (buildPayoffSeries legs (JNumber NaN)) = Fin 50
   \<and> minS (buildPayoffSeries legs (JNumber PInf)) = Fin 50
   \<and> minS (buildPayoffSeries legs (JNumber NInf)) = Fin 50
   \<and> minS (buildPayoffSeries legs JNull) = Fin 50
   \<and> minS (buildPayoffSeries legs JUndefined) = Fin 50"
  by (simp add: buildPayoffSeries_eq spec_minS_def spec_maxS_def spec_center_def
      normalized_def)

text \<open>
  Claim C5. At every sample index the aggregate payoff is the sum over the legs of the
  payoff function at that sample price; with no leg every aggregate payoff is 0; the call
  spread long 500, short 520 has the aggregate payoff 2000 at the price 530.
\<close>

theorem buildPayoffSeries_sums_legs:
  assumes "i < 201"
  shows "ys (buildPayoffSeries legs spot) ! i
           = total_payoff legs (xs (buildPayoffSeries legs spot) ! i)
         \<and> (\<exists>S. xs (buildPayoffSeries legs spot) ! i = Fin S
              \<and> ys (buildPayoffSeries legs spot) ! i
                   = Fin (sum_list (map (\<lambda>l. spec_payoff l S) legs)))
         \<and> ys (buildPayoffSeries [] spot) ! i = Fin 0
         \<and> total_payoff
              [\<lparr>side = ''LONG'', type = ''C'', qty = JNumber (Fin 1),
                  strike = JNumber (Fin 500)\<rparr>,
               \<lparr>side = ''SHORT'', type = ''C'', qty = JNumber (Fin 1),
                  strike = JNumber (Fin 520)\<rparr>]
              (Fin 530) = Fin 2000"
proof -
  have n: "[0..<201] ! i = i" "i < length [0..<201]"
    using assms by (simp_all del: upt_Suc)
  have a: "xs (buildPayoffSeries legs spot) ! i = Fin (spec_sample spot i)" for legs
    using n by (simp add: buildPayoffSeries_eq del: upt_Suc)
  have b: "ys (buildPayoffSeries legs spot) ! i
             = total_payoff legs (Fin (spec_sample spot i))" for legs
    using n by (simp add: buildPayoffSeries_eq del: upt_Suc)
  show ?thesis
    by (simp add: a b total_payoff_Fin spec_payoff_def spec_intrinsic_def normalized_def)
qed

theorem buildPayoffSeries_sums_legs_witness:
  "(112::nat) < 201
   \<and> xs (buildPayoffSeries
        [\<lparr>side = ''LONG'', type = ''C'', qty = JNumber (Fin 1), strike = JNumber (Fin 500)\<rparr>,
         \<lparr>side = ''SHORT'', type = ''C'', qty = JNumber (Fin 1), strike = JNumber (Fin 520)\<rparr>]
        (JNumber (Fin 500))) ! 112 = Fin 530
   \<and> ys (buildPayoffSeries
        [\<lparr>side = ''LONG'', type = ''C'', qty = JNumber (Fin 1), strike = JNumber (Fin 500)\<rparr>,
         \<lparr>side = ''SHORT'', type = ''C'', qty = JNumber (Fin 1), strike = JNumber (Fin 520)\<rparr>]
        (JNumber (Fin 500))) ! 112 = Fin 2000"
proof -
  have h: "(112::nat) < 201" by simp
  have x: "xs (buildPayoffSeries legs (JNumber (Fin 500))) ! 112 = Fin 530" for legs
    by (simp add: buildPayoffSeries_eq spec_sample_def spec_minS_def spec_maxS_def
      spec_center_def normalized_def del: upt_Suc)
  show ?thesis
    using buildPayoffSeries_sums_legs [OF h, of
        "[\<lparr>side = ''LONG'', type = ''C'', qty = JNumber (Fin 1), strike = JNumber (Fin 500)\<rparr>,
         \<lparr>side = ''SHORT'', type = ''C'', qty = JNumber (Fin 1), strike = JNumber (Fin 520)\<rparr>]"
        "JNumber (Fin 500)"]
    by (simp add: x)
qed

section \<open>Facts about the geometry mapper\<close>

lemma path_loop_eq:
  "path_loop fx fy sx sy i d =
     d @ map (\<lambda>j. (if j = 0 then MoveTo else LineTo) (fx (at_index sx j)) (fy (at_index sy j)))
           [i..<length sx]"
proof (induction fx fy sx sy i d rule: path_loop.induct)
  case (1 fx fy sx sy i d)
  show ?case
  proof (cases "i < length sx")
    case True
    then have u: "[i..<length sx] = i # [Suc i..<length sx]"
      by (simp add: upt_conv_Cons)
    show ?thesis
      using True 1 by (subst path_loop.simps) (simp add: u Let_def)
  next
    case False
    then show ?thesis by (subst path_loop.simps) simp
  qed
qed

lemma svgPathFromSeries_nonempty:
  assumes "sx \<noteq> []"
  shows "svgPathFromSeries sx sy width height padding =
     \<lparr>path = map (\<lambda>j. (if j = 0 then MoveTo else LineTo)
          (xToPx_closure padding (Math_min sx) (Math_max sx)
             (js_sub width (js_mul padding (Fin 2))) (at_index sx j))
          (yToPx_closure padding (Math_min (sy @ [Fin 0])) (Math_max (sy @ [Fin 0]))
             (js_sub height (js_mul padding (Fin 2))) (at_index sy j))) [0..<length sx],
      bounds = Some \<lparr>xMin = Math_min sx, xMax = Math_max sx,
          yMin = Math_min (sy @ [Fin 0]), yMax = Math_max (sy @ [Fin 0]),
          yZero = yToPx_closure padding (Math_min (sy @ [Fin 0])) (Math_max (sy @ [Fin 0]))
             (js_sub height (js_mul padding (Fin 2))) (Fin 0),
          xToPx = xToPx_closure padding (Math_min sx) (Math_max sx)
             (js_sub width (js_mul padding (Fin 2))),
          yToPx = yToPx_closure padding (Math_min (sy @ [Fin 0])) (Math_max (sy @ [Fin 0]))
             (js_sub height (js_mul padding (Fin 2)))\<rparr>\<rparr>"
  using assms by (simp add: svgPathFromSeries_def Let_def path_loop_eq)

lemma foldl_max2_Fin: "foldl max2 (Fin a) (map Fin as) = Fin (fold max as a)"
  by (induction as arbitrary: a) (simp_all add: max_def)

lemma foldl_min2_Fin: "foldl min2 (Fin a) (map Fin as) = Fin (fold min as a)"
  by (induction as arbitrary: a) (simp_all add: min_def)

lemma Math_max_Fin: "Math_max (map Fin (a # as)) = Fin (Max (set (a # as)))"
  unfolding Max.set_eq_fold by (simp add: Math_max_def foldl_max2_Fin)

lemma Math_min_Fin: "Math_min (map Fin (a # as)) = Fin (Min (set (a # as)))"
  unfolding Min.set_eq_fold by (simp add: Math_min_def foldl_min2_Fin)

lemma Math_max_Fin_zero: "Math_max (map Fin yr @ [Fin 0]) = Fin (Max (insert 0 (set yr)))"
proof -
  have "Math_max (map Fin (yr @ [0])) = Fin (Max (set (yr @ [0])))"
    by (cases yr) (simp_all only: append.simps Math_max_Fin)
  then show ?thesis by simp
qed

lemma Math_min_Fin_zero: "Math_min (map Fin yr @ [Fin 0]) = Fin (Min (insert 0 (set yr)))"
proof -
  have "Math_min (map Fin (yr @ [0])) = Fin (Min (set (yr @ [0])))"
    by (cases yr) (simp_all only: append.simps Math_min_Fin)
  then show ?thesis by simp
qed

lemma foldl_min2_not_NaN: "a \<noteq> NaN \<Longrightarrow> NaN \<notin> set as \<Longrightarrow> foldl min2 a as \<noteq> NaN"
proof (induction as arbitrary: a)
  case Nil
  then show ?case by simp
next
  case (Cons b as)
  from Cons.prems have "min2 a b \<noteq> NaN"
    by (cases a; cases b) simp_all
  with Cons show ?case by simp
qed

lemma foldl_max2_not_NaN: "a \<noteq> NaN \<Longrightarrow> NaN \<notin> set as \<Longrightarrow> foldl max2 a as \<noteq> NaN"
proof (induction as arbitrary: a)
  case Nil
  then show ?case by simp
next
  case (Cons b as)
  from Cons.prems have "max2 a b \<noteq> NaN"
    by (cases a; cases b) simp_all
  with Cons show ?case by simp
qed

lemma min2_zero_le: "a \<noteq> NaN \<Longrightarrow> js_le (min2 a (Fin 0)) (Fin 0)"
  by (cases a) simp_all

lemma max2_zero_ge: "a \<noteq> NaN \<Longrightarrow> js_le (Fin 0) (max2 a (Fin 0))"
  by (cases a) simp_all

lemma min2_same: "min2 v v = v" "min2 PInf v = v"
  by (cases v; simp)+

lemma max2_same: "max2 v v = v" "max2 NInf v = v"
  by (cases v; simp)+

lemma foldl_min2_const: "\<forall>x\<in>set as. x = v \<Longrightarrow> foldl min2 v as = v"
  by (induction as) (simp_all add: min2_same)

lemma foldl_max2_const: "\<forall>x\<in>set as. x = v \<Longrightarrow> foldl max2 v as = v"
  by (induction as) (simp_all add: max2_same)

lemma Math_min_const: "as \<noteq> [] \<Longrightarrow> \<forall>x\<in>set as. x = v \<Longrightarrow> Math_min as = v"
  by (cases as) (simp_all add: Math_min_def min2_same foldl_min2_const)

lemma Math_max_const: "as \<noteq> [] \<Longrightarrow> \<forall>x\<in>set as. x = v \<Longrightarrow> Math_max as = v"
  by (cases as) (simp_all add: Math_max_def max2_same foldl_max2_const)

lemma zero_by_zero: "js_div (js_sub v v) (js_sub v v) = NaN"
  by (cases v) (simp_all add: js_sub_def)

lemma js_add_NaN: "js_add a NaN = NaN"
  by (cases a) simp_all

lemma xToPx_closure_flat: "xToPx_closure padding v v innerW v = NaN"
  by (simp add: xToPx_closure_def zero_by_zero js_add_NaN)

text \<open>
  Claim C6, as stated: for every non-empty input the y coordinate is
  \<open>padding + (1 - (payoff - yMin)/(yMax - yMin)) * innerHeight\<close>. For the flat series
  \<open>[0, 0]\<close> the bounds are \<open>yMin = yMax = 0\<close>; the formula is \<open>0/0\<close>, NaN, while the
  program divides by 1 and draws both points at the pixel 90.
\<close>

theorem svgPathFromSeries_flat_divisor:
  "path (svgPathFromSeries [Fin 1, Fin 2] [Fin 0, Fin 0] (Fin 100) (Fin 100) (Fin 10))
     = [MoveTo (Fin 10) (Fin 90), LineTo (Fin 90) (Fin 90)]
   \<and> map_option yMin
        (bounds (svgPathFromSeries [Fin 1, Fin 2] [Fin 0, Fin 0] (Fin 100) (Fin 100) (Fin 10)))
       = Some (Fin 0)
   \<and> map_option yMax
        (bounds (svgPathFromSeries [Fin 1, Fin 2] [Fin 0, Fin 0] (Fin 100) (Fin 100) (Fin 10)))
       = Some (Fin 0)
   \<and> spec_pixel_y (Fin 10) (Fin 0) (Fin 0) (Fin 80) (Fin 0) = NaN
   \<and> cmd_y (path (svgPathFromSeries [Fin 1, Fin 2] [Fin 0, Fin 0] (Fin 100) (Fin 100)
         (Fin 10)) ! 0) \<noteq> spec_pixel_y (Fin 10) (Fin 0) (Fin 0) (Fin 80) (Fin 0)"
  by (simp add: svgPathFromSeries_nonempty Math_min_def Math_max_def at_index_def
      xToPx_closure_def yToPx_closure_def js_sub_def spec_pixel_y_def upt_conv_Cons)

text \<open>
  Claim C6, amended. For every non-empty pair of parallel sequences and every width,
  height and padding, in the arithmetic of JavaScript numbers: the bounds are
  \<open>Math.min\<close> and \<open>Math.max\<close> of the prices, and of the payoffs with 0 added; the x map
  is the stated formula; the y map is the stated formula with the divisor \<open>yMax - yMin\<close>
  when that is neither 0 nor NaN and the divisor 1 otherwise. The path has one command
  per sample in input order, a move-to first and a line-to for every later sample,
  through the two maps; the result carries the pixel of payoff 0 and the two maps.
\<close>

theorem svgPathFromSeries_linear_maps:
  assumes ne: "sx \<noteq> []" and len: "length sy = length sx"
    and r: "r = svgPathFromSeries sx sy width height padding"
    and iw: "innerW = js_sub width (js_mul padding (Fin 2))"
    and ih: "innerH = js_sub height (js_mul padding (Fin 2))"
  shows "\<exists>b. bounds r = Some b
       \<and> xMin b = Math_min sx \<and> xMax b = Math_max sx
       \<and> yMin b = Math_min (sy @ [Fin 0]) \<and> yMax b = Math_max (sy @ [Fin 0])
       \<and> (\<forall>x. xToPx b x = spec_pixel_x padding (xMin b) (xMax b) innerW x)
       \<and> (\<forall>y. yToPx b y
              = js_add padding
                  (js_mul (js_sub (Fin 1)
                     (js_div (js_sub y (yMin b))
                        (if truthy (js_sub (yMax b) (yMin b))
                         then js_sub (yMax b) (yMin b) else Fin 1)))
                     innerH))
       \<and> (truthy (js_sub (yMax b) (yMin b)) \<longrightarrow>
            (\<forall>y. yToPx b y = spec_pixel_y padding (yMin b) (yMax b) innerH y))
       \<and> yZero b = yToPx b (Fin 0)
       \<and> length (path r) = length sx
       \<and> path r ! 0 = MoveTo (xToPx b (sx ! 0)) (yToPx b (sy ! 0))
       \<and> (\<forall>i. 0 < i \<and> i < length sx \<longrightarrow>
            path r ! i = LineTo (xToPx b (sx ! i)) (yToPx b (sy ! i)))"
proof -
  let ?fx = "xToPx_closure padding (Math_min sx) (Math_max sx) innerW"
  let ?fy = "yToPx_closure padding (Math_min (sy @ [Fin 0])) (Math_max (sy @ [Fin 0])) innerH"
  let ?b = "\<lparr>xMin = Math_min sx, xMax = Math_max sx,
             yMin = Math_min (sy @ [Fin 0]), yMax = Math_max (sy @ [Fin 0]),
             yZero = ?fy (Fin 0), xToPx = ?fx, yToPx = ?fy\<rparr>"
  have rv: "r = \<lparr>path = map (\<lambda>j. (if j = 0 then MoveTo else LineTo)
                    (?fx (at_index sx j)) (?fy (at_index sy j))) [0..<length sx],
                bounds = Some ?b\<rparr>"
    unfolding r iw ih by (rule svgPathFromSeries_nonempty [OF ne])
  have fx: "?fx x = spec_pixel_x padding (Math_min sx) (Math_max sx) innerW x" for x
    by (simp add: xToPx_closure_def spec_pixel_x_def)
  have fy: "?fy y = js_add padding
                  (js_mul (js_sub (Fin 1)
                     (js_div (js_sub y (Math_min (sy @ [Fin 0])))
                        (if truthy (js_sub (Math_max (sy @ [Fin 0])) (Math_min (sy @ [Fin 0])))
                         then js_sub (Math_max (sy @ [Fin 0])) (Math_min (sy @ [Fin 0]))
                         else Fin 1)))
                     innerH)" for y
    by (simp add: yToPx_closure_def)
  have fy1: "?fy y = spec_pixel_y padding (Math_min (sy @ [Fin 0])) (Math_max (sy @ [Fin 0]))
                       innerH y"
    if "truthy (js_sub (Math_max (sy @ [Fin 0])) (Math_min (sy @ [Fin 0])))" for y
    using that by (simp add: yToPx_closure_def spec_pixel_y_def)
  have at: "at_index sx i = sx ! i" "at_index sy i = sy ! i" if "i < length sx" for i
    using that len by (simp_all add: at_index_def)
  have p0: "path r ! 0 = MoveTo (?fx (sx ! 0)) (?fy (sy ! 0))"
    using ne at [of 0] by (simp add: rv)
  have pi: "path r ! i = LineTo (?fx (sx ! i)) (?fy (sy ! i))"
    if "0 < i" "i < length sx" for i
    using that at [of i] by (simp add: rv)
  have b: "bounds r = Some ?b" by (simp add: rv)
  have n: "length (path r) = length sx" by (simp add: rv)
  show ?thesis
    using b n fx fy1 p0 pi by (intro exI [of _ ?b]) (simp add: fy)
qed

theorem svgPathFromSeries_linear_maps_witness:
  "[Fin 1, Fin 2] \<noteq> [] \<and> length [Fin 0, Fin 1] = length [Fin 1, Fin 2]
   \<and> length (path (svgPathFromSeries [Fin 1, Fin 2] [Fin 0, Fin 1]
         (Fin 100) (Fin 100) (Fin 10))) = 2
   \<and> path (svgPathFromSeries [Fin 1, Fin 2] [Fin 0, Fin 1]
         (Fin 100) (Fin 100) (Fin 10)) ! 0 = MoveTo (Fin 10) (Fin 90)
   \<and> path (svgPathFromSeries [Fin 1, Fin 2] [Fin 0, Fin 1]
         (Fin 100) (Fin 100) (Fin 10)) ! 1 = LineTo (Fin 90) (Fin 10)
   \<and> map_option yZero (bounds (svgPathFromSeries [Fin 1, Fin 2] [Fin 0, Fin 1]
         (Fin 100) (Fin 100) (Fin 10))) = Some (Fin 90)"
proof -
  have a: "[Fin 1, Fin 2] \<noteq> []" by simp
  have b: "length [Fin 0, Fin 1] = length [Fin 1, Fin 2]" by simp
  show ?thesis
    using svgPathFromSeries_linear_maps [OF a b refl refl refl, of "Fin 100" "Fin 100" "Fin 10"]
    by (elim exE conjE allE [of _ "1 :: nat"])
      (simp add: Math_min_def Math_max_def spec_pixel_x_def js_sub_def)
qed

text \<open>
  Claim C7, as stated: for every non-empty input \<open>yMin \<le> 0 \<le> yMax\<close>. With a NaN among
  the payoffs both bounds are NaN, and every comparison with NaN is false.
\<close>

theorem svgPathFromSeries_NaN_payoff:
  "map_option yMin (bounds (svgPathFromSeries [Fin 1, Fin 2] [NaN, Fin 1]
       (Fin 100) (Fin 100) (Fin 10))) = Some NaN
   \<and> map_option yMax (bounds (svgPathFromSeries [Fin 1, Fin 2] [NaN, Fin 1]
       (Fin 100) (Fin 100) (Fin 10))) = Some NaN
   \<and> \<not> js_le NaN (Fin 0) \<and> \<not> js_le (Fin 0) NaN"
  by (simp add: svgPathFromSeries_nonempty Math_min_def Math_max_def)

text \<open>
  Claim C7, amended. For every non-empty input whose payoffs are numbers other than NaN
  (the infinities are allowed), the bounds contain 0 in the y range, \<open>yMin \<le> 0 \<le> yMax\<close>,
  also when every payoff is strictly positive or strictly negative.
\<close>

theorem svgPathFromSeries_zero_in_range:
  assumes "sx \<noteq> []" and "NaN \<notin> set sy"
  shows "\<exists>b. bounds (svgPathFromSeries sx sy width height padding) = Some b
           \<and> js_le (yMin b) (Fin 0) \<and> js_le (Fin 0) (yMax b)"
proof -
  have "js_le (Math_min (sy @ [Fin 0])) (Fin 0)"
    using assms(2) by (simp add: Math_min_def min2_zero_le foldl_min2_not_NaN)
  moreover have "js_le (Fin 0) (Math_max (sy @ [Fin 0]))"
    using assms(2) by (simp add: Math_max_def max2_zero_ge foldl_max2_not_NaN)
  ultimately show ?thesis
    using assms(1) by (simp add: svgPathFromSeries_nonempty)
qed


theorem svgPathFromSeries_zero_in_range_witness:
  "[Fin 1] \<noteq> [] \<and> NaN \<notin> set [Fin 5, Fin 7]
   \<and> map_option yMin (bounds (svgPathFromSeries [Fin 1] [Fin 5, Fin 7]
         (Fin 100) (Fin 100) (Fin 10))) = Some (Fin 0)
   \<and> map_option yMax (bounds (svgPathFromSeries [Fin 1] [Fin 5, Fin 7]
         (Fin 100) (Fin 100) (Fin 10))) = Some (Fin 7)"
proof -
  have a: "[Fin 1] \<noteq> []" by simp
  have b: "NaN \<notin> set [Fin 5, Fin 7]" by simp
  show ?thesis
    using svgPathFromSeries_zero_in_range [OF a b, of "Fin 100" "Fin 100" "Fin 10"]
    by (simp add: svgPathFromSeries_nonempty Math_min_def Math_max_def)
qed

text \<open>
  Claim C8. When the payoff series is degenerate, \<open>yMax = yMin\<close>, the y divisor is 1
  instead of 0: both bounds are 0, the y map is \<open>padding + (1 - payoff/1) * innerHeight\<close>,
  and every point of the path and the zero line lie at the finite pixel
  \<open>padding + innerHeight\<close>. The payoffs, the height and the padding are finite.
\<close>

theorem svgPathFromSeries_flat_series:
  assumes b: "bounds (svgPathFromSeries sx (map Fin yr) width (Fin h) (Fin p)) = Some b"
    and flat: "yMax b = yMin b"
    and len: "length yr = length sx"
  shows "yMin b = Fin 0 \<and> yMax b = Fin 0
       \<and> (\<forall>y. yToPx b (Fin y) = Fin (p + (1 - y / 1) * (h - p * 2)))
       \<and> (\<forall>c\<in>set (path (svgPathFromSeries sx (map Fin yr) width (Fin h) (Fin p))).
            cmd_y c = Fin (p + (h - p * 2)))
       \<and> yZero b = Fin (p + (h - p * 2))"
proof -
  from b have ne: "sx \<noteq> []"
    by (auto simp: svgPathFromSeries_def)
  let ?lo = "Min (insert 0 (set yr))" and ?hi = "Max (insert 0 (set yr))"
  have bv: "b = \<lparr>xMin = Math_min sx, xMax = Math_max sx,
          yMin = Fin ?lo, yMax = Fin ?hi,
          yZero = yToPx_closure (Fin p) (Fin ?lo) (Fin ?hi) (Fin (h - p * 2)) (Fin 0),
          xToPx = xToPx_closure (Fin p) (Math_min sx) (Math_max sx)
             (js_sub width (Fin (p * 2))),
          yToPx = yToPx_closure (Fin p) (Fin ?lo) (Fin ?hi) (Fin (h - p * 2))\<rparr>"
    using b ne by (simp add: svgPathFromSeries_nonempty Math_min_Fin_zero Math_max_Fin_zero
        js_sub_def)
  from flat bv have eq: "?hi = ?lo" by simp
  have l0: "?lo \<le> 0" by (rule Min_le) simp_all
  have h0: "0 \<le> ?hi" by (rule Max_ge) simp_all
  from eq l0 h0 have lo: "?lo = 0" by linarith
  with eq have hi: "?hi = 0" by simp
  have zero: "y = 0" if "y \<in> set yr" for y
  proof -
    have "?lo \<le> y" using that by (intro Min_le) simp_all
    moreover have "y \<le> ?hi" using that by (intro Max_ge) simp_all
    ultimately show ?thesis unfolding lo hi by linarith
  qed
  have f: "yToPx_closure (Fin p) (Fin 0) (Fin 0) (Fin (h - p * 2)) (Fin y)
             = Fin (p + (1 - y / 1) * (h - p * 2))" for y
    by (simp add: yToPx_closure_def js_sub_def)
  have at: "at_index (map Fin yr) j = Fin 0" if "j < length sx" for j
    using that len zero by (simp add: at_index_def)
  have pth: "\<forall>c\<in>set (path (svgPathFromSeries sx (map Fin yr) width (Fin h) (Fin p))).
            cmd_y c = Fin (p + (h - p * 2))"
    using ne by (auto simp: svgPathFromSeries_nonempty Math_min_Fin_zero Math_max_Fin_zero
        lo hi at js_sub_def f)
  show ?thesis
    using pth by (simp add: bv lo hi f)
qed


theorem svgPathFromSeries_flat_series_witness:
  "map_option yMax (bounds (svgPathFromSeries [Fin 1, Fin 2] (map Fin [0, 0])
      (Fin 100) (Fin 100) (Fin 10)))
     = map_option yMin (bounds (svgPathFromSeries [Fin 1, Fin 2] (map Fin [0, 0])
      (Fin 100) (Fin 100) (Fin 10)))
   \<and> length [0, 0 :: real] = length [Fin 1, Fin 2]
   \<and> map cmd_y (path (svgPathFromSeries [Fin 1, Fin 2] (map Fin [0, 0])
        (Fin 100) (Fin 100) (Fin 10))) = [Fin 90, Fin 90]
   \<and> map_option yZero (bounds (svgPathFromSeries [Fin 1, Fin 2] (map Fin [0, 0])
        (Fin 100) (Fin 100) (Fin 10))) = Some (Fin 90)"
proof -
  let ?r = "svgPathFromSeries [Fin 1, Fin 2] (map Fin [0, 0]) (Fin 100) (Fin 100) (Fin 10)"
  obtain b where b: "bounds ?r = Some b"
    by (simp add: svgPathFromSeries_nonempty)
  have flat: "yMax b = yMin b"
    using b by (auto simp: svgPathFromSeries_nonempty Math_min_def Math_max_def)
  have len: "length [0, 0 :: real] = length [Fin 1, Fin 2]" by simp
  have two: "length (path ?r) = 2"
    by (simp add: svgPathFromSeries_nonempty)
  have "map cmd_y (path ?r) = [Fin 90, Fin 90]"
    using svgPathFromSeries_flat_series [OF b flat len] two
    by (cases "path ?r"; cases "tl (path ?r)") auto
  moreover have "yZero b = Fin 90"
    using svgPathFromSeries_flat_series [OF b flat len] by simp
  ultimately show ?thesis
    using b flat len by simp
qed

text \<open>
  Claim C9. On an empty sequence of prices, for every width, height and padding, the
  mapper returns the empty path and no bounds.
\<close>

theorem svgPathFromSeries_empty:
  "svgPathFromSeries [] sy width height padding = \<lparr>path = [], bounds = None\<rparr>
   \<and> path_string str (path (svgPathFromSeries [] sy width height padding)) = ''''"
  by (simp add: svgPathFromSeries_def path_string_def)

text \<open>
  Claim C10. Only the y divisor is guarded against zero. For every non-empty input whose
  sample prices are all equal, the x map computes \<open>0/0\<close> and every x coordinate of the
  path is NaN.
\<close>

theorem svgPathFromSeries_equal_prices:
  assumes "sx \<noteq> []" and "\<forall>x\<in>set sx. x = v"
  shows "\<forall>c\<in>set (path (svgPathFromSeries sx sy width height padding)). cmd_x c = NaN"
proof -
  have "at_index sx j = v" if "j < length sx" for j
    using that assms(2) by (simp add: at_index_def)
  then show ?thesis
    using assms by (auto simp: svgPathFromSeries_nonempty Math_min_const Math_max_const
        xToPx_closure_flat)
qed

theorem svgPathFromSeries_equal_prices_witness:
  "[Fin 5] \<noteq> []
   \<and> path (svgPathFromSeries [Fin 5] [Fin 3] (Fin 100) (Fin 100) (Fin 10))
       = [MoveTo NaN (Fin 10)]"
proof -
  have a: "[Fin 5] \<noteq> []" by simp
  have b: "\<forall>x\<in>set [Fin 5]. x = Fin 5" by simp
  have p: "path (svgPathFromSeries [Fin 5] [Fin 3] (Fin 100) (Fin 100) (Fin 10))
             = [MoveTo (xToPx_closure (Fin 10) (Fin 5) (Fin 5) (Fin 80) (Fin 5)) (Fin 10)]"
    by (simp add: svgPathFromSeries_nonempty Math_min_def Math_max_def at_index_def
        yToPx_closure_def js_sub_def)
  show ?thesis
    using svgPathFromSeries_equal_prices [OF a b, of "[Fin 3]" "Fin 100" "Fin 100" "Fin 10"] a
    by (simp add: p)
qed

end
